theory Spec2Isabelle
  imports Complex_Main "HOL-Library.Finite_Map" "HOL-Library.Multiset"
begin

section \<open>The read-only traits webhook (main.go)\<close>

text \<open>
  The webhook receives the old and the new traits of an identity, asks the schema registry
  which traits carry the annotation \<^verbatim>\<open>zolfa.dev/kratos-readonly\<close>, and answers 409 when one
  of those traits is about to change. The model follows \<^verbatim>\<open>main.go\<close> function by function.
  What Go does outside the repository's own code is made explicit:
  \<^item> a run-time panic is a value (\<open>Inl\<close> of a sum), as is a returned \<^verbatim>\<open>error\<close>;
  \<^item> the \<^verbatim>\<open>http.ResponseWriter\<close> is a record that is passed along and returned;
  \<^item> the requests sent with \<^verbatim>\<open>http.Get\<close> are written to a log that is passed along;
  \<^item> the order in which \<^verbatim>\<open>range\<close> visits the keys of a map is a parameter.
\<close>

subsection \<open>Values of type \<^verbatim>\<open>interface{}\<close> produced by \<^verbatim>\<open>encoding/json\<close>\<close>

text \<open>
  Decoding JSON into \<^verbatim>\<open>interface{}\<close> yields \<^verbatim>\<open>nil\<close>, a \<^verbatim>\<open>bool\<close>, a \<^verbatim>\<open>float64\<close>, a
  \<^verbatim>\<open>string\<close>, a \<^verbatim>\<open>[]interface{}\<close> or a \<^verbatim>\<open>map[string]interface{}\<close>. A decoded number is a
  finite \<^verbatim>\<open>float64\<close>; it is represented by the rational it denotes, so that Go's \<^verbatim>\<open>==\<close> on two
  such numbers is equality of the representatives (both zeros are the rational 0). An
  object is a finite map, so that equality of \<open>json\<close> values is deep structural equality.
\<close>

datatype json =
    JNull
  | JBool bool
  | JNum rat
  | JStr string
  | JArr "json list"
  | JObj "(string, json) fmap"

datatype dyntype = TNil | TBool | TFloat64 | TString | TSlice | TMap

fun dynType :: "json \<Rightarrow> dyntype" where
  "dynType JNull = TNil"
| "dynType (JBool b) = TBool"
| "dynType (JNum x) = TFloat64"
| "dynType (JStr s) = TString"
| "dynType (JArr xs) = TSlice"
| "dynType (JObj m) = TMap"

text \<open>Slices and maps are the two dynamic types here that Go cannot compare with \<^verbatim>\<open>==\<close>.\<close>

definition comparable :: "dyntype \<Rightarrow> bool" where
  "comparable t = (t \<noteq> TSlice \<and> t \<noteq> TMap)"

datatype panic =
    UncomparableType dyntype   \<comment> \<open>runtime error: comparing uncomparable type ...\<close>
  | InterfaceConversion dyntype   \<comment> \<open>interface conversion: interface {} is ..., not bool\<close>

datatype failure =
    Error string   \<comment> \<open>a returned \<^verbatim>\<open>error\<close>, with its message\<close>
  | Panic panic

text \<open>
  \<^verbatim>\<open>a == b\<close> on two interface values: values of different dynamic types are unequal, values
  of the same comparable dynamic type are compared, and two values of the same
  uncomparable dynamic type make the comparison panic.
\<close>

definition ifaceEq :: "json \<Rightarrow> json \<Rightarrow> panic + bool" where
  "ifaceEq a b =
     (if dynType a \<noteq> dynType b then Inr False
      else if \<not> comparable (dynType a) then Inl (UncomparableType (dynType a))
      else Inr (a = b))"

definition ifaceNe :: "json \<Rightarrow> json \<Rightarrow> panic + bool" where
  "ifaceNe a b = (case ifaceEq a b of Inl p \<Rightarrow> Inl p | Inr eq \<Rightarrow> Inr (\<not> eq))"

text \<open>\<^verbatim>\<open>v.(bool)\<close>: the type assertion with one result panics on anything but a \<^verbatim>\<open>bool\<close>.\<close>

definition assertBool :: "json \<Rightarrow> panic + bool" where
  "assertBool v = (case v of JBool b \<Rightarrow> Inr b | _ \<Rightarrow> Inl (InterfaceConversion (dynType v)))"

text \<open>
  \<^verbatim>\<open>m[k]\<close> on a \<^verbatim>\<open>map[string]interface{}\<close>: the zero value \<^verbatim>\<open>nil\<close> when the key is absent (or
  the map itself is \<^verbatim>\<open>nil\<close>).
\<close>

type_synonym traits = "string \<rightharpoonup> json"

definition mapIndex :: "traits \<Rightarrow> string \<Rightarrow> json" where
  "mapIndex m k = (case m k of None \<Rightarrow> JNull | Some v \<Rightarrow> v)"

subsection \<open>The types of main.go\<close>

record WebhookRequest =
  SchemaID :: string
  OldTraits :: traits
  NewTraits :: traits

record WebhookResponseNestedMessage =
  ID :: int
  Text :: string
  Type :: string

record WebhookResponseTopMessage =
  InstancePtr :: string
  Messages :: "WebhookResponseNestedMessage list"

record WebhookResponse =
  Messages :: "WebhookResponseTopMessage list"

text \<open>
  \<^verbatim>\<open>KratosSchema\<close>: \<open>Properties\<close> is the map at \<^verbatim>\<open>Properties.Traits.Properties\<close>, as the list of
  its entries in the order \<^verbatim>\<open>range\<close> visits them; the inner maps are only indexed.
\<close>

record KratosSchema =
  Type :: string
  Properties :: "(string \<times> (string \<rightharpoonup> json)) list"

subsection \<open>The world outside: registry and response writer\<close>

text \<open>
  \<open>Body\<close> is what \<^verbatim>\<open>json.NewDecoder(resp.Body).Decode(&schema)\<close> yields: the decoder's error
  text or the decoded schema. \<open>httpGet\<close> is \<^verbatim>\<open>http.Get\<close>: its error text or the response.
\<close>

record HttpResponse =
  StatusCode :: nat
  Body :: "string + KratosSchema"

record env =
  KRATOS_PUBLIC_URL :: string
  httpGet :: "string \<Rightarrow> string + HttpResponse"

datatype chunk = Text string | Json WebhookResponse

text \<open>
  The response writer: \<open>status\<close> is the status line sent (none yet when \<open>None\<close>), \<open>headerCalls\<close>
  lists every call of \<^verbatim>\<open>WriteHeader\<close>. Only the first call sets the status; \<^verbatim>\<open>net/http\<close> and
  \<^verbatim>\<open>httptest\<close> ignore the later ones.
\<close>

record ResponseWriter =
  header :: "string \<rightharpoonup> string"
  status :: "nat option"
  body :: "chunk list"
  headerCalls :: "nat list"

definition newRecorder :: ResponseWriter where
  "newRecorder = \<lparr>header = Map.empty, status = None, body = [], headerCalls = []\<rparr>"

definition Header_Set :: "string \<Rightarrow> string \<Rightarrow> ResponseWriter \<Rightarrow> ResponseWriter" where
  "Header_Set k v w = w\<lparr>header := (header w)(k \<mapsto> v)\<rparr>"

definition Header_Del :: "string \<Rightarrow> ResponseWriter \<Rightarrow> ResponseWriter" where
  "Header_Del k w = w\<lparr>header := (header w)(k := None)\<rparr>"

definition WriteHeader :: "nat \<Rightarrow> ResponseWriter \<Rightarrow> ResponseWriter" where
  "WriteHeader code w =
     w\<lparr>status := (case status w of None \<Rightarrow> Some code | Some c \<Rightarrow> Some c),
       headerCalls := headerCalls w @ [code]\<rparr>"

definition Write :: "chunk \<Rightarrow> ResponseWriter \<Rightarrow> ResponseWriter" where
  "Write c w =
     (let w' = (if status w = None then WriteHeader 200 w else w)
      in w'\<lparr>body := body w' @ [c]\<rparr>)"

text \<open>\<^verbatim>\<open>http.Error(w, msg, code)\<close>: plain-text headers, the status, the message and a newline.\<close>

definition http_Error :: "string \<Rightarrow> nat \<Rightarrow> ResponseWriter \<Rightarrow> ResponseWriter" where
  "http_Error msg code w =
     Write (Text (msg @ [CHR 0x0A]))
       (WriteHeader code
         (Header_Set ''X-Content-Type-Options'' ''nosniff''
           (Header_Set ''Content-Type'' ''text/plain; charset=utf-8''
             (Header_Del ''Content-Length'' w))))"

subsection \<open>fetchSchemaImmutableTraits\<close>

text \<open>
  The loop over the schema's properties. The set \<^verbatim>\<open>map[string]struct{}\<close> is the list of its
  keys; storing a key that is there already changes nothing.
\<close>

fun immutableLoop :: "(string \<times> (string \<rightharpoonup> json)) list \<Rightarrow> string list \<Rightarrow> panic + string list" where
  "immutableLoop [] immutableTraits = Inr immutableTraits"
| "immutableLoop ((trait, props) # rest) immutableTraits =
     (case props ''zolfa.dev/kratos-readonly'' of
        None \<Rightarrow> immutableLoop rest immutableTraits
      | Some immutable \<Rightarrow>
          (case assertBool immutable of
             Inl p \<Rightarrow> Inl p
           | Inr b \<Rightarrow>
               if b then immutableLoop rest (List.insert trait immutableTraits)
               else immutableLoop rest immutableTraits))"

text \<open>The second argument and the second result are the log of URLs requested so far.\<close>

definition fetchSchemaImmutableTraits ::
    "env \<Rightarrow> string \<Rightarrow> string list \<Rightarrow> (failure + string list) \<times> string list" where
  "fetchSchemaImmutableTraits e schemaID net =
     (let kratosURL = KRATOS_PUBLIC_URL e in
      if kratosURL = [] then (Inl (Error ''Kratos URL is not set''), net)
      else
        let url = kratosURL @ ''/schemas/'' @ schemaID;
            net' = net @ [url]
        in case httpGet e url of
             Inl err \<Rightarrow> (Inl (Error (''failed to fetch schema: '' @ err)), net')
           | Inr resp \<Rightarrow>
               if StatusCode resp \<noteq> 200
               then (Inl (Error ''failed to fetch schema: <nil>''), net')
               else
                 (case Body resp of
                    Inl err \<Rightarrow> (Inl (Error (''failed to decode schema: '' @ err)), net')
                  | Inr schema \<Rightarrow>
                      (case immutableLoop (Properties schema) [] of
                         Inl p \<Rightarrow> (Inl (Panic p), net')
                       | Inr immutableTraits \<Rightarrow> (Inr immutableTraits, net'))))"

subsection \<open>webhookHandler\<close>

definition instancePtr :: "string \<Rightarrow> string" where
  "instancePtr trait = ''#/traits/'' @ trait"

definition readOnlyMessage :: "string \<Rightarrow> WebhookResponseTopMessage" where
  "readOnlyMessage trait =
     \<lparr>InstancePtr = instancePtr trait,
      Messages = [\<lparr>ID = 1377, Text = ''Element is read-only.'', Type = ''conflict''\<rparr>]\<rparr>"

text \<open>
  The condition of the loop body, \<^verbatim>\<open>NewTraits[trait] != nil && NewTraits[trait] !=
  OldTraits[trait]\<close>; \<^verbatim>\<open>&&\<close> does not evaluate its right operand when the left one is false.
\<close>

definition traitChanged :: "traits \<Rightarrow> traits \<Rightarrow> string \<Rightarrow> panic + bool" where
  "traitChanged oldTraits newTraits trait =
     (if mapIndex newTraits trait \<noteq> JNull
      then ifaceNe (mapIndex newTraits trait) (mapIndex oldTraits trait)
      else Inr False)"

text \<open>
  The loop \<^verbatim>\<open>for trait := range immutableTraits\<close>, over the keys in the order \<^verbatim>\<open>range\<close> visits
  them; the last argument is \<^verbatim>\<open>response.Messages\<close>.
\<close>

fun checkLoop ::
    "traits \<Rightarrow> traits \<Rightarrow> string list \<Rightarrow> WebhookResponseTopMessage list
      \<Rightarrow> panic + WebhookResponseTopMessage list" where
  "checkLoop oldTraits newTraits [] messages = Inr messages"
| "checkLoop oldTraits newTraits (trait # rest) messages =
     (case traitChanged oldTraits newTraits trait of
        Inl p \<Rightarrow> Inl p
      | Inr changed \<Rightarrow>
          if changed
          then checkLoop oldTraits newTraits rest (messages @ [readOnlyMessage trait])
          else checkLoop oldTraits newTraits rest messages)"

text \<open>
  The check on its own: the loop started with the empty \<^verbatim>\<open>response.Messages\<close>, as the handler
  starts it, for a given order of the keys of the immutable set.
\<close>

definition checkTraits ::
    "string list \<Rightarrow> traits \<Rightarrow> traits \<Rightarrow> panic + WebhookResponseTopMessage list" where
  "checkTraits immutableOrder oldTraits newTraits =
     checkLoop oldTraits newTraits immutableOrder []"

text \<open>
  The handler. \<open>decoded\<close> is what \<^verbatim>\<open>json.NewDecoder(r.Body).Decode(&payload)\<close> yields, the
  decoder's error text or the payload. \<open>rangeOrder\<close> is the order in which the run time
  visits the keys of \<^verbatim>\<open>immutableTraits\<close>. A panic leaves the handler without a response.
\<close>

definition webhookHandler ::
    "(string list \<Rightarrow> string list) \<Rightarrow> env \<Rightarrow> string + WebhookRequest
      \<Rightarrow> ResponseWriter \<times> string list \<Rightarrow> panic + ResponseWriter \<times> string list" where
  "webhookHandler rangeOrder e decoded st =
     (case st of (w, net) \<Rightarrow>
      (case decoded of
         Inl err \<Rightarrow> Inr (http_Error ''Invalid JSON'' 400 w, net)
       | Inr payload \<Rightarrow>
           (case fetchSchemaImmutableTraits e (SchemaID payload) net of
              (Inl (Error err), net') \<Rightarrow>
                Inr (http_Error (''Failed to obtain schema immutable traits: '' @ err) 500 w, net')
            | (Inl (Panic p), net') \<Rightarrow> Inl p
            | (Inr immutableTraits, net') \<Rightarrow>
                (case checkLoop (OldTraits payload) (NewTraits payload)
                        (rangeOrder immutableTraits) [] of
                   Inl p \<Rightarrow> Inl p
                 | Inr messages \<Rightarrow>
                     let response = \<lparr>Messages = messages\<rparr>;
                         w1 = (if length (Messages response) > 0
                               then Write (Json response)
                                      (WriteHeader 409
                                        (Header_Set ''Content-Type'' ''application/json'' w))
                               else w)
                     in Inr (WriteHeader 200 w1, net')))))"

text \<open>
  \<^verbatim>\<open>range\<close> over a map visits every key once, in an order the run time chooses: the order is
  some rearrangement of the keys.
\<close>

definition isRangeOrder :: "(string list \<Rightarrow> string list) \<Rightarrow> bool" where
  "isRangeOrder rangeOrder = (\<forall>keys. mset (rangeOrder keys) = mset keys)"

subsection \<open>The fixtures of webhook_test.go\<close>

text \<open>
  The mock registry answers the path of one schema with a given status and body, and
  anything else with 404. The schema of the tests marks \<^verbatim>\<open>email\<close> read-only and \<^verbatim>\<open>username\<close>
  not.
\<close>

definition serverURL :: string where
  "serverURL = ''http://127.0.0.1:8080''"

definition mockKratosPublicAPI :: "string \<Rightarrow> nat \<Rightarrow> string + KratosSchema \<Rightarrow> env" where
  "mockKratosPublicAPI schemaID statusCode respBody =
     \<lparr>KRATOS_PUBLIC_URL = serverURL,
      httpGet = (\<lambda>url.
        if url = serverURL @ ''/schemas/'' @ schemaID
        then Inr \<lparr>StatusCode = statusCode, Body = respBody\<rparr>
        else Inr \<lparr>StatusCode = 404, Body = Inl ''invalid character''\<rparr>)\<rparr>"

definition publicAPIResponse :: KratosSchema where
  "publicAPIResponse =
     \<lparr>Type = ''object'',
      Properties =
        [(''email'', [''zolfa.dev/kratos-readonly'' \<mapsto> JBool True]),
         (''username'', [''zolfa.dev/kratos-readonly'' \<mapsto> JBool False])]\<rparr>"

definition oldTraits :: traits where
  "oldTraits = [''username'' \<mapsto> JStr ''oldusername'', ''email'' \<mapsto> JStr ''oldemail@example.com'']"

subsection \<open>Notions used to state the properties\<close>

text \<open>
  Two values whose comparison with \<^verbatim>\<open>==\<close> panics: both slices or both maps.
\<close>

definition uncomparablePair :: "json \<Rightarrow> json \<Rightarrow> bool" where
  "uncomparablePair a b = (dynType a = dynType b \<and> \<not> comparable (dynType a))"

text \<open>
  The change the loop looks for: the new traits give the trait a value that is not \<^verbatim>\<open>nil\<close>
  and that is not the old value, where a trait without an old value has the old value
  \<^verbatim>\<open>nil\<close>. Equality is that of \<open>json\<close>, deep structural equality.
\<close>

definition changedTrait :: "traits \<Rightarrow> traits \<Rightarrow> string \<Rightarrow> bool" where
  "changedTrait old new t = (mapIndex new t \<noteq> JNull \<and> mapIndex new t \<noteq> mapIndex old t)"

text \<open>
  The violation as the specification words it: the new values contain the trait, and its
  value there differs from its value in the old values, an absent old value counting as
  \<^verbatim>\<open>nil\<close>.
\<close>

definition specViolation :: "traits \<Rightarrow> traits \<Rightarrow> string \<Rightarrow> bool" where
  "specViolation old new a = (new a \<noteq> None \<and> mapIndex new a \<noteq> mapIndex old a)"

text \<open>The number of message containers for a trait in a list of containers.\<close>

definition containersFor :: "string \<Rightarrow> WebhookResponseTopMessage list \<Rightarrow> nat" where
  "containersFor trait messages =
     length (filter (\<lambda>m. InstancePtr m = ''#/traits/'' @ trait) messages)"

section \<open>Properties\<close>

subsection \<open>Auxiliary facts about the comparison and the loop\<close>

lemma instancePtr_inj: "instancePtr a = instancePtr b \<longleftrightarrow> a = b"
  by (simp add: instancePtr_def)

lemma InstancePtr_readOnlyMessage: "InstancePtr (readOnlyMessage t) = instancePtr t"
  by (simp add: readOnlyMessage_def)


lemma ifaceEq_Inl: "ifaceEq a b = Inl p \<longleftrightarrow> uncomparablePair a b \<and> p = UncomparableType (dynType a)"
  by (auto simp: ifaceEq_def uncomparablePair_def)

lemma ifaceEq_Inr: "ifaceEq a b = Inr eq \<longleftrightarrow> \<not> uncomparablePair a b \<and> eq = (a = b)"
  by (auto simp: ifaceEq_def uncomparablePair_def)

lemma uncomparablePair_not_null: "uncomparablePair a b \<Longrightarrow> a \<noteq> JNull"
  by (auto simp: uncomparablePair_def comparable_def)

lemma traitChanged_Inl:
  "traitChanged old new t = Inl p \<longleftrightarrow>
     uncomparablePair (mapIndex new t) (mapIndex old t) \<and> p = UncomparableType (dynType (mapIndex new t))"
  by (auto simp: traitChanged_def ifaceNe_def ifaceEq_Inl ifaceEq_Inr uncomparablePair_not_null split: sum.splits)

lemma traitChanged_Inr:
  "traitChanged old new t = Inr c \<longleftrightarrow>
     \<not> uncomparablePair (mapIndex new t) (mapIndex old t) \<and>
     c = (mapIndex new t \<noteq> JNull \<and> mapIndex new t \<noteq> mapIndex old t)"
  by (auto simp: traitChanged_def ifaceNe_def ifaceEq_Inl ifaceEq_Inr uncomparablePair_not_null split: sum.splits)


lemma checkLoop_Inr:
  "checkLoop old new ks acc = Inr ms \<longleftrightarrow>
     (\<forall>k \<in> set ks. \<not> uncomparablePair (mapIndex new k) (mapIndex old k)) \<and>
     ms = acc @ map readOnlyMessage (filter (changedTrait old new) ks)"
proof (induction ks arbitrary: acc)
  case Nil
  show ?case by auto
next
  case (Cons k ks)
  show ?case
  proof (cases "traitChanged old new k")
    case (Inl p)
    then have "uncomparablePair (mapIndex new k) (mapIndex old k)"
      by (simp add: traitChanged_Inl)
    with Inl show ?thesis by simp
  next
    case (Inr c)
    then have "\<not> uncomparablePair (mapIndex new k) (mapIndex old k)"
      and "c = changedTrait old new k"
      by (simp_all add: traitChanged_Inr changedTrait_def)
    with Inr show ?thesis
      using Cons.IH by simp
  qed
qed

lemma checkLoop_Inl:
  "checkLoop old new ks acc = Inl p \<Longrightarrow>
     \<exists>k \<in> set ks. uncomparablePair (mapIndex new k) (mapIndex old k)"
proof (induction ks arbitrary: acc)
  case Nil
  then show ?case by simp
next
  case (Cons k ks)
  show ?case
  proof (cases "traitChanged old new k")
    case (Inl q)
    then have "uncomparablePair (mapIndex new k) (mapIndex old k)"
      by (simp add: traitChanged_Inl)
    then show ?thesis by simp
  next
    case (Inr c)
    with Cons.prems have "\<exists>acc'. checkLoop old new ks acc' = Inl p"
      by (auto split: if_splits)
    with Cons.IH show ?thesis by auto
  qed
qed

lemma count_containers:
  "distinct ks \<Longrightarrow>
     length (filter (\<lambda>m. InstancePtr m = instancePtr a) (map readOnlyMessage (filter P ks)))
       = (if a \<in> set ks \<and> P a then 1 else 0)"
proof (induction ks)
  case Nil
  show ?case by simp
next
  case (Cons k ks)
  then show ?case
    by (auto simp: InstancePtr_readOnlyMessage instancePtr_inj)
qed


lemma containersFor_none:
  "\<not> P a \<Longrightarrow> containersFor a (map readOnlyMessage (filter P ks)) = 0"
  by (induction ks) (auto simp: containersFor_def readOnlyMessage_def instancePtr_def)

lemma containersFor_distinct:
  "distinct ks \<Longrightarrow>
     containersFor a (map readOnlyMessage (filter P ks)) = (if a \<in> set ks \<and> P a then 1 else 0)"
  using count_containers [of ks a P] by (simp add: containersFor_def instancePtr_def)

lemma checkTraits_Inr:
  "checkTraits ks old new = Inr ms \<longleftrightarrow>
     (\<forall>k \<in> set ks. \<not> uncomparablePair (mapIndex new k) (mapIndex old k)) \<and>
     ms = map readOnlyMessage (filter (changedTrait old new) ks)"
  by (simp add: checkTraits_def checkLoop_Inr)

lemma checkTraits_Inl:
  "checkTraits ks old new = Inl p \<Longrightarrow>
     \<exists>k \<in> set ks. uncomparablePair (mapIndex new k) (mapIndex old k)"
  unfolding checkTraits_def by (rule checkLoop_Inl)

lemma checkLoop_cong:
  "(\<And>k. k \<in> set ks \<Longrightarrow> traitChanged old new k = traitChanged old' new' k) \<Longrightarrow>
     checkLoop old new ks acc = checkLoop old' new' ks acc"
  by (induction ks arbitrary: acc) (auto split: sum.splits)

subsection \<open>The check\<close>

text \<open>
  Claim C1, as amended. Let the keys of the immutable set be visited once each, and let no
  immutable trait have a new and an old value that are both arrays or both objects. Then
  the check returns a list of containers, and for every immutable trait \<open>a\<close> the list holds
  exactly one container for \<open>a\<close> when the new traits give \<open>a\<close> a value other than \<^verbatim>\<open>nil\<close>
  that differs from the old value of \<open>a\<close> (\<^verbatim>\<open>nil\<close> when there is none), and no container for
  \<open>a\<close> otherwise.
\<close>

theorem violation_iff_changed:
  assumes "distinct immutable" and "a \<in> set immutable"
    and "\<forall>k \<in> set immutable. \<not> uncomparablePair (mapIndex new k) (mapIndex old k)"
  shows "\<exists>ms. checkTraits immutable old new = Inr ms \<and>
           containersFor a ms = (if changedTrait old new a then 1 else 0)"
  using assms by (simp add: checkTraits_Inr containersFor_distinct)

text \<open>The second scenario of the specification: the e-mail address changes.\<close>

theorem violation_iff_changed_witness:
  "distinct [''email''] \<and> ''email'' \<in> set [''email''] \<and>
   \<not> uncomparablePair (mapIndex [''email'' \<mapsto> JStr ''b@x.com''] ''email'')
                       (mapIndex [''email'' \<mapsto> JStr ''a@x.com''] ''email'') \<and>
   changedTrait [''email'' \<mapsto> JStr ''a@x.com''] [''email'' \<mapsto> JStr ''b@x.com''] ''email'' \<and>
   (\<exists>ms. checkTraits [''email''] [''email'' \<mapsto> JStr ''a@x.com''] [''email'' \<mapsto> JStr ''b@x.com'']
            = Inr ms \<and> containersFor ''email'' ms = 1)"
  using violation_iff_changed [of "[''email'']" "''email''"
      "[''email'' \<mapsto> JStr ''b@x.com'']" "[''email'' \<mapsto> JStr ''a@x.com'']"]
  by (simp add: uncomparablePair_def comparable_def mapIndex_def changedTrait_def)

text \<open>
  Claim C1 as stated fails: the new traits contain \<^verbatim>\<open>email\<close> with the value \<^verbatim>\<open>null\<close>, which
  differs from the old address, and the check records nothing.
\<close>

theorem explicit_null_counterexample:
  "specViolation [''email'' \<mapsto> JStr ''a@x.com''] [''email'' \<mapsto> JNull] ''email'' \<and>
   checkTraits [''email''] [''email'' \<mapsto> JStr ''a@x.com''] [''email'' \<mapsto> JNull] = Inr [] \<and>
   containersFor ''email'' [] = 0"
  by (simp add: specViolation_def mapIndex_def checkTraits_def traitChanged_def containersFor_def)

text \<open>
  Claim C4 at a failing input: the new and the old value of the immutable trait
  \<^verbatim>\<open>address\<close> are the same object \<^verbatim>\<open>{"city": "Rome"}\<close>, and the comparison panics instead of
  finding them equal; the handler ends in that panic, without a response.
\<close>

theorem equal_objects_panic:
  "mapIndex [''address'' \<mapsto> JObj (fmupd ''city'' (JStr ''Rome'') fmempty)] ''address''
     = mapIndex [''address'' \<mapsto> JObj (fmupd ''city'' (JStr ''Rome'') fmempty)] ''address'' \<and>
   checkTraits [''address'']
     [''address'' \<mapsto> JObj (fmupd ''city'' (JStr ''Rome'') fmempty)]
     [''address'' \<mapsto> JObj (fmupd ''city'' (JStr ''Rome'') fmempty)]
     = Inl (UncomparableType TMap) \<and>
   webhookHandler (\<lambda>keys. keys)
     (mockKratosPublicAPI ''schema123'' 200
        (Inr \<lparr>Type = ''object'',
              Properties = [(''address'', [''zolfa.dev/kratos-readonly'' \<mapsto> JBool True])]\<rparr>))
     (Inr \<lparr>SchemaID = ''schema123'',
           OldTraits = [''address'' \<mapsto> JObj (fmupd ''city'' (JStr ''Rome'') fmempty)],
           NewTraits = [''address'' \<mapsto> JObj (fmupd ''city'' (JStr ''Rome'') fmempty)]\<rparr>)
     (newRecorder, [])
     = Inl (UncomparableType TMap)"
  by (simp add: mapIndex_def checkTraits_def traitChanged_def ifaceNe_def ifaceEq_def
      comparable_def webhookHandler_def fetchSchemaImmutableTraits_def mockKratosPublicAPI_def
      serverURL_def assertBool_def)

text \<open>
  The comparison is right where Go can compare: a trait whose new value equals its old
  value, neither being an array or an object, is found unchanged.
\<close>

lemma equal_comparable_unchanged:
  "mapIndex new a = mapIndex old a \<Longrightarrow> comparable (dynType (mapIndex old a)) \<Longrightarrow>
     traitChanged old new a = Inr False"
  by (simp add: traitChanged_Inr uncomparablePair_def changedTrait_def)

text \<open>
  Claim C5. A trait that the new traits do not contain is not flagged, whatever its old
  value: its own comparison yields "unchanged" without a panic, and every list the check
  returns holds no container for it.
\<close>

theorem absent_new_trait_not_flagged:
  assumes "new a = None"
  shows "traitChanged old new a = Inr False \<and>
         (\<forall>ms. checkTraits immutable old new = Inr ms \<longrightarrow> containersFor a ms = 0)"
proof -
  from assms have null: "mapIndex new a = JNull"
    by (simp add: mapIndex_def)
  then have "\<not> changedTrait old new a"
    by (simp add: changedTrait_def)
  then have "\<forall>ms. checkTraits immutable old new = Inr ms \<longrightarrow> containersFor a ms = 0"
    by (simp add: checkTraits_Inr containersFor_none)
  moreover from null have "traitChanged old new a = Inr False"
    by (simp add: traitChanged_def)
  ultimately show ?thesis by simp
qed

text \<open>Here the name changes and the e-mail address is not in the new traits.\<close>

theorem absent_new_trait_not_flagged_witness:
  "[''name'' \<mapsto> JStr ''carol''] ''email'' = None \<and>
   checkTraits [''email'', ''name'']
     [''email'' \<mapsto> JStr ''a@x.com'', ''name'' \<mapsto> JStr ''bob'']
     [''name'' \<mapsto> JStr ''carol''] = Inr [readOnlyMessage ''name''] \<and>
   containersFor ''email'' [readOnlyMessage ''name''] = 0"
  using absent_new_trait_not_flagged [of "[''name'' \<mapsto> JStr ''carol'']" "''email''"
      "[''email'' \<mapsto> JStr ''a@x.com'', ''name'' \<mapsto> JStr ''bob'']" "[''email'', ''name'']"]
  by (simp add: mapIndex_def checkTraits_def traitChanged_def ifaceNe_def ifaceEq_def
      comparable_def)

text \<open>
  Claim C9. A trait that the new traits map to \<^verbatim>\<open>null\<close> is not flagged, whatever its old
  value, and the check cannot tell this from the trait being absent: removing the key
  from the new traits leaves the outcome of the check as it is.
\<close>

theorem null_new_trait_not_flagged:
  assumes "new a = Some JNull"
  shows "traitChanged old new a = Inr False \<and>
         (\<forall>ms. checkTraits immutable old new = Inr ms \<longrightarrow> containersFor a ms = 0) \<and>
         checkTraits immutable old (new(a := None)) = checkTraits immutable old new"
proof -
  from assms have null: "mapIndex new a = JNull"
    by (simp add: mapIndex_def)
  then have "\<not> changedTrait old new a"
    by (simp add: changedTrait_def)
  then have none: "\<forall>ms. checkTraits immutable old new = Inr ms \<longrightarrow> containersFor a ms = 0"
    by (simp add: checkTraits_Inr containersFor_none)
  from null have step: "traitChanged old new a = Inr False"
    by (simp add: traitChanged_def)
  from assms have "mapIndex (new(a := None)) k = mapIndex new k" for k
    by (simp add: mapIndex_def)
  then have "traitChanged old (new(a := None)) k = traitChanged old new k" for k
    by (simp add: traitChanged_def)
  then have "checkTraits immutable old (new(a := None)) = checkTraits immutable old new"
    unfolding checkTraits_def by (intro checkLoop_cong) simp
  with none step show ?thesis by simp
qed

text \<open>Erasing the read-only e-mail address with \<^verbatim>\<open>null\<close> goes through.\<close>

theorem null_new_trait_not_flagged_witness:
  "[''email'' \<mapsto> JNull] ''email'' = Some JNull \<and>
   mapIndex [''email'' \<mapsto> JStr ''a@x.com''] ''email'' \<noteq> JNull \<and>
   checkTraits [''email''] [''email'' \<mapsto> JStr ''a@x.com''] [''email'' \<mapsto> JNull] = Inr [] \<and>
   containersFor ''email'' [] = 0"
  using null_new_trait_not_flagged [of "[''email'' \<mapsto> JNull]" "''email''"
      "[''email'' \<mapsto> JStr ''a@x.com'']" "[''email'']"]
  by (simp add: mapIndex_def checkTraits_def traitChanged_def)

text \<open>
  Claim C8. The check is a function of the immutable set and the two trait maps. Two runs
  may visit the keys of the set in different orders; then both panic, or both return
  lists with the same containers, each the same number of times.
\<close>

theorem check_deterministic:
  assumes "mset immutable' = mset immutable"
  shows "rel_sum (\<lambda>p p'. True) (\<lambda>ms ms'. mset ms = mset ms')
           (checkTraits immutable old new) (checkTraits immutable' old new)"
proof -
  from assms have sets: "set immutable' = set immutable"
    by (rule mset_eq_setD)
  show ?thesis
  proof (cases "\<exists>k \<in> set immutable. uncomparablePair (mapIndex new k) (mapIndex old k)")
    case True
    then have "\<And>ms. checkTraits immutable old new \<noteq> Inr ms"
      and "\<And>ms. checkTraits immutable' old new \<noteq> Inr ms"
      using sets by (auto simp: checkTraits_Inr)
    then obtain p p' where "checkTraits immutable old new = Inl p"
      and "checkTraits immutable' old new = Inl p'"
      by (metis sum.exhaust)
    then show ?thesis by simp
  next
    case False
    then have "checkTraits immutable old new
        = Inr (map readOnlyMessage (filter (changedTrait old new) immutable))"
      and "checkTraits immutable' old new
        = Inr (map readOnlyMessage (filter (changedTrait old new) immutable'))"
      using sets by (simp_all add: checkTraits_Inr)
    moreover have "mset (map readOnlyMessage (filter (changedTrait old new) immutable))
        = mset (map readOnlyMessage (filter (changedTrait old new) immutable'))"
    proof -
      have "mset (filter (changedTrait old new) immutable)
          = mset (filter (changedTrait old new) immutable')"
        using assms by (simp only: mset_filter)
      then have "image_mset readOnlyMessage (mset (filter (changedTrait old new) immutable))
          = image_mset readOnlyMessage (mset (filter (changedTrait old new) immutable'))"
        by (rule arg_cong)
      then show ?thesis by (simp only: mset_map)
    qed
    ultimately show ?thesis by simp
  qed
qed


text \<open>Two traits change, and the two runs visit them in opposite orders.\<close>

theorem check_deterministic_witness:
  "mset [''name'', ''email''] = mset [''email'', ''name''] \<and>
   checkTraits [''email'', ''name'']
     [''email'' \<mapsto> JStr ''a@x.com'', ''name'' \<mapsto> JStr ''bob'']
     [''email'' \<mapsto> JStr ''b@x.com'', ''name'' \<mapsto> JStr ''carol'']
     = Inr [readOnlyMessage ''email'', readOnlyMessage ''name''] \<and>
   checkTraits [''name'', ''email'']
     [''email'' \<mapsto> JStr ''a@x.com'', ''name'' \<mapsto> JStr ''bob'']
     [''email'' \<mapsto> JStr ''b@x.com'', ''name'' \<mapsto> JStr ''carol'']
     = Inr [readOnlyMessage ''name'', readOnlyMessage ''email''] \<and>
   mset [readOnlyMessage ''email'', readOnlyMessage ''name'']
     = mset [readOnlyMessage ''name'', readOnlyMessage ''email'']"
  using check_deterministic [of "[''name'', ''email'']" "[''email'', ''name'']"
      "[''email'' \<mapsto> JStr ''a@x.com'', ''name'' \<mapsto> JStr ''bob'']"
      "[''email'' \<mapsto> JStr ''b@x.com'', ''name'' \<mapsto> JStr ''carol'']"]
  by (simp add: mapIndex_def checkTraits_def traitChanged_def ifaceNe_def ifaceEq_def
      comparable_def)

subsection \<open>The handler\<close>

lemma webhookHandler_checked:
  assumes "fetchSchemaImmutableTraits e (SchemaID payload) net0 = (Inr immutableTraits, net)"
    and "checkTraits (rangeOrder immutableTraits) (OldTraits payload) (NewTraits payload)
           = Inr messages"
  shows "webhookHandler rangeOrder e (Inr payload) (w, net0)
           = Inr (WriteHeader 200
                    (if messages \<noteq> []
                     then Write (Json \<lparr>Messages = messages\<rparr>)
                            (WriteHeader 409 (Header_Set ''Content-Type'' ''application/json'' w))
                     else w), net)"
  using assms by (simp add: webhookHandler_def checkTraits_def)

lemma webhookHandler_Inr_payload:
  assumes "fetchSchemaImmutableTraits e (SchemaID payload) net0 = (Inr immutableTraits, net)"
    and "webhookHandler rangeOrder e (Inr payload) (w, net0) = Inr (w', net')"
  shows "\<exists>messages.
           checkTraits (rangeOrder immutableTraits) (OldTraits payload) (NewTraits payload)
             = Inr messages"
  using assms by (auto simp: webhookHandler_def checkTraits_def split: sum.splits)

lemma immutableLoop_distinct:
  "immutableLoop props acc = Inr ks \<Longrightarrow> distinct acc \<Longrightarrow> distinct ks"
  by (induction props acc rule: immutableLoop.induct)
     (auto split: option.splits sum.splits if_splits)

lemma fetch_distinct:
  "fetchSchemaImmutableTraits e schemaID net0 = (Inr ks, net) \<Longrightarrow> distinct ks"
  by (auto simp: fetchSchemaImmutableTraits_def Let_def
      split: if_splits sum.splits dest: immutableLoop_distinct)

lemma fetch_requests:
  "fetchSchemaImmutableTraits e schemaID net0 = (r, net) \<Longrightarrow>
     net = net0 \<or> net = net0 @ [KRATOS_PUBLIC_URL e @ ''/schemas/'' @ schemaID]"
  by (auto simp: fetchSchemaImmutableTraits_def Let_def split: if_splits sum.splits)

text \<open>
  Where every annotation present is a boolean, the loop over the schema returns the traits
  annotated \<^verbatim>\<open>true\<close>, and only those.
\<close>

lemma immutableLoop_booleans:
  assumes "\<forall>(trait, props) \<in> set properties. \<forall>v. props ''zolfa.dev/kratos-readonly'' = Some v \<longrightarrow> dynType v = TBool"
  shows "\<exists>ks. immutableLoop properties acc = Inr ks \<and>
           set ks = set acc \<union>
             {trait. \<exists>props. (trait, props) \<in> set properties \<and>
                        props ''zolfa.dev/kratos-readonly'' = Some (JBool True)}"
  using assms
proof (induction properties acc rule: immutableLoop.induct)
  case (1 acc)
  show ?case by simp
next
  case (2 trait props rest acc)
  show ?case
  proof (cases "props ''zolfa.dev/kratos-readonly''")
    case None
    with 2 show ?thesis by auto
  next
    case (Some v)
    with "2.prems" have "dynType v = TBool" by auto
    then obtain b where v: "v = JBool b" by (cases v) auto
    show ?thesis
    proof (cases b)
      case True
      with Some v "2.IH"(2) [of v b] "2.prems" show ?thesis
        by (auto simp: assertBool_def)
    next
      case False
      with Some v "2.IH"(3) [of v b] "2.prems" show ?thesis
        by (auto simp: assertBool_def)
    qed
  qed
qed

text \<open>
  Claim C2 at a failing input: the registry's schema parses into \<^verbatim>\<open>KratosSchema\<close> and
  annotates \<^verbatim>\<open>email\<close> with the string \<^verbatim>\<open>"true"\<close>. The type assertion \<^verbatim>\<open>immutable.(bool)\<close> panics;
  the function neither returns a set without \<^verbatim>\<open>email\<close> nor an error.
\<close>

theorem non_boolean_annotation_panics:
  "fetchSchemaImmutableTraits
     (mockKratosPublicAPI ''schema123'' 200
        (Inr \<lparr>Type = ''object'',
              Properties = [(''email'', [''zolfa.dev/kratos-readonly'' \<mapsto> JStr ''true''])]\<rparr>))
     ''schema123'' []
   = (Inl (Panic (InterfaceConversion TString)), [''http://127.0.0.1:8080/schemas/schema123''])"
  by (simp add: fetchSchemaImmutableTraits_def mockKratosPublicAPI_def serverURL_def
      assertBool_def)

text \<open>
  Claim C3. When the request decodes, the lookup returns the immutable set and the check
  returns at least one container, the response has status 409 and the encoded list of
  containers as its body, with content type \<^verbatim>\<open>application/json\<close>. The handler does not return
  after writing it: \<^verbatim>\<open>WriteHeader\<close> is called with 409 and then again with 200, and the second
  call does not change the status.
\<close>

theorem conflict_response:
  assumes "fetchSchemaImmutableTraits e (SchemaID payload) [] = (Inr immutableTraits, net)"
    and "checkTraits (rangeOrder immutableTraits) (OldTraits payload) (NewTraits payload)
           = Inr messages"
    and "messages \<noteq> []"
  shows "\<exists>w. webhookHandler rangeOrder e (Inr payload) (newRecorder, []) = Inr (w, net) \<and>
           status w = Some 409 \<and>
           body w = [Json \<lparr>Messages = messages\<rparr>] \<and>
           header w ''Content-Type'' = Some ''application/json'' \<and>
           headerCalls w = [409, 200]"
proof -
  have "webhookHandler rangeOrder e (Inr payload) (newRecorder, [])
      = Inr (WriteHeader 200
               (Write (Json \<lparr>Messages = messages\<rparr>)
                  (WriteHeader 409
                     (Header_Set ''Content-Type'' ''application/json'' newRecorder))), net)"
    using assms
      webhookHandler_checked [where rangeOrder = rangeOrder and immutableTraits = immutableTraits]
    by simp
  then show ?thesis
    by (simp add: WriteHeader_def Write_def Header_Set_def newRecorder_def)
qed

text \<open>The second test of webhook_test.go: the e-mail address changes.\<close>

theorem conflict_response_witness:
  "fetchSchemaImmutableTraits (mockKratosPublicAPI ''schema123'' 200 (Inr publicAPIResponse))
     ''schema123'' [] = (Inr [''email''], [''http://127.0.0.1:8080/schemas/schema123'']) \<and>
   checkTraits [''email''] oldTraits [''email'' \<mapsto> JStr ''newemail@example.com'']
     = Inr [readOnlyMessage ''email''] \<and>
   [readOnlyMessage ''email''] \<noteq> [] \<and>
   (\<exists>w. webhookHandler (\<lambda>keys. keys)
           (mockKratosPublicAPI ''schema123'' 200 (Inr publicAPIResponse))
           (Inr \<lparr>SchemaID = ''schema123'', OldTraits = oldTraits,
                 NewTraits = [''email'' \<mapsto> JStr ''newemail@example.com'']\<rparr>)
           (newRecorder, [])
         = Inr (w, [''http://127.0.0.1:8080/schemas/schema123'']) \<and>
         status w = Some 409 \<and>
         body w = [Json \<lparr>Messages = [readOnlyMessage ''email'']\<rparr>] \<and>
         header w ''Content-Type'' = Some ''application/json'' \<and>
         headerCalls w = [409, 200])"
  using conflict_response [of "mockKratosPublicAPI ''schema123'' 200 (Inr publicAPIResponse)"
      "\<lparr>SchemaID = ''schema123'', OldTraits = oldTraits,
        NewTraits = [''email'' \<mapsto> JStr ''newemail@example.com'']\<rparr>"
      "[''email'']" "[''http://127.0.0.1:8080/schemas/schema123'']" "\<lambda>keys. keys"
      "[readOnlyMessage ''email'']"]
  by (simp add: fetchSchemaImmutableTraits_def mockKratosPublicAPI_def serverURL_def
      publicAPIResponse_def oldTraits_def assertBool_def checkTraits_def traitChanged_def
      mapIndex_def ifaceNe_def ifaceEq_def comparable_def)

text \<open>
  Claim C6. With an empty immutable set the check returns the empty list for all old and
  new traits, and the handler answers 200 with an empty body whatever the payload's traits.
\<close>

theorem empty_immutable_set_accepts:
  assumes "fetchSchemaImmutableTraits e (SchemaID payload) [] = (Inr [], net)"
    and "isRangeOrder rangeOrder"
  shows "checkTraits [] old new = Inr [] \<and>
         (\<exists>w. webhookHandler rangeOrder e (Inr payload) (newRecorder, []) = Inr (w, net) \<and>
            status w = Some 200 \<and> body w = [] \<and> headerCalls w = [200])"
proof -
  from assms(2) have "mset (rangeOrder []) = mset ([] :: string list)"
    unfolding isRangeOrder_def by blast
  then have "rangeOrder [] = []" by simp
  then have "checkTraits (rangeOrder []) (OldTraits payload) (NewTraits payload) = Inr []"
    by (simp add: checkTraits_def)
  with assms(1) have "webhookHandler rangeOrder e (Inr payload) (newRecorder, [])
      = Inr (WriteHeader 200 newRecorder, net)"
    using webhookHandler_checked [where rangeOrder = rangeOrder and immutableTraits = "[]"]
    by simp
  then show ?thesis
    by (simp add: checkTraits_def WriteHeader_def newRecorder_def)
qed

text \<open>A schema without a read-only trait; the e-mail address changes and is accepted.\<close>

theorem empty_immutable_set_accepts_witness:
  "fetchSchemaImmutableTraits
     (mockKratosPublicAPI ''schema123'' 200
        (Inr \<lparr>Type = ''object'',
              Properties = [(''username'', [''zolfa.dev/kratos-readonly'' \<mapsto> JBool False]),
                            (''email'', Map.empty)]\<rparr>))
     ''schema123'' [] = (Inr [], [''http://127.0.0.1:8080/schemas/schema123'']) \<and>
   isRangeOrder rev \<and>
   (\<exists>w. webhookHandler rev
           (mockKratosPublicAPI ''schema123'' 200
              (Inr \<lparr>Type = ''object'',
                    Properties = [(''username'', [''zolfa.dev/kratos-readonly'' \<mapsto> JBool False]),
                                  (''email'', Map.empty)]\<rparr>))
           (Inr \<lparr>SchemaID = ''schema123'', OldTraits = oldTraits,
                 NewTraits = [''email'' \<mapsto> JStr ''newemail@example.com'']\<rparr>)
           (newRecorder, [])
         = Inr (w, [''http://127.0.0.1:8080/schemas/schema123'']) \<and>
         status w = Some 200 \<and> body w = [] \<and> headerCalls w = [200])"
  using empty_immutable_set_accepts [of
      "mockKratosPublicAPI ''schema123'' 200
        (Inr \<lparr>Type = ''object'',
              Properties = [(''username'', [''zolfa.dev/kratos-readonly'' \<mapsto> JBool False]),
                            (''email'', Map.empty)]\<rparr>)"
      "\<lparr>SchemaID = ''schema123'', OldTraits = oldTraits,
        NewTraits = [''email'' \<mapsto> JStr ''newemail@example.com'']\<rparr>"
      "[''http://127.0.0.1:8080/schemas/schema123'']" rev]
  by (simp add: fetchSchemaImmutableTraits_def mockKratosPublicAPI_def serverURL_def
      assertBool_def isRangeOrder_def)

text \<open>
  Claim C7. A body that does not decode gives status 400 and the text \<^verbatim>\<open>Invalid JSON\<close>, with
  no request sent to the registry. A lookup that returns an error gives status 500 and a
  text that ends with the error's message, after at most one request to the registry. In
  both cases \<^verbatim>\<open>WriteHeader\<close> is called once and nothing else is written.
\<close>

theorem failures_are_terminal:
  "(\<exists>w. webhookHandler rangeOrder e (Inl err) (newRecorder, []) = Inr (w, []) \<and>
      status w = Some 400 \<and> body w = [Text (''Invalid JSON'' @ [CHR 0x0A])] \<and>
      headerCalls w = [400]) \<and>
   (fetchSchemaImmutableTraits e (SchemaID payload) [] = (Inl (Error reason), net) \<longrightarrow>
      length net \<le> 1 \<and>
      (\<exists>w. webhookHandler rangeOrder e (Inr payload) (newRecorder, []) = Inr (w, net) \<and>
         status w = Some 500 \<and>
         body w = [Text (''Failed to obtain schema immutable traits: '' @ reason @ [CHR 0x0A])] \<and>
         headerCalls w = [500]))"
proof (intro conjI impI)
  show "\<exists>w. webhookHandler rangeOrder e (Inl err) (newRecorder, []) = Inr (w, []) \<and>
      status w = Some 400 \<and> body w = [Text (''Invalid JSON'' @ [CHR 0x0A])] \<and>
      headerCalls w = [400]"
    by (simp add: webhookHandler_def http_Error_def Write_def WriteHeader_def Header_Set_def
        Header_Del_def newRecorder_def)
next
  assume fetch: "fetchSchemaImmutableTraits e (SchemaID payload) [] = (Inl (Error reason), net)"
  from fetch_requests [OF fetch] show "length net \<le> 1" by auto
  from fetch show "\<exists>w. webhookHandler rangeOrder e (Inr payload) (newRecorder, []) = Inr (w, net) \<and>
         status w = Some 500 \<and>
         body w = [Text (''Failed to obtain schema immutable traits: '' @ reason @ [CHR 0x0A])] \<and>
         headerCalls w = [500]"
    by (simp add: webhookHandler_def http_Error_def Write_def WriteHeader_def Header_Set_def
        Header_Del_def newRecorder_def)
qed

text \<open>The fourth test of webhook_test.go: the registry answers 500.\<close>

theorem failures_are_terminal_witness:
  "fetchSchemaImmutableTraits (mockKratosPublicAPI ''schema123'' 500 (Inl ''EOF''))
     ''schema123'' []
     = (Inl (Error ''failed to fetch schema: <nil>''),
        [''http://127.0.0.1:8080/schemas/schema123'']) \<and>
   (\<exists>w. webhookHandler (\<lambda>keys. keys) (mockKratosPublicAPI ''schema123'' 500 (Inl ''EOF''))
           (Inr \<lparr>SchemaID = ''schema123'', OldTraits = oldTraits,
                 NewTraits = [''username'' \<mapsto> JStr ''newusername'']\<rparr>)
           (newRecorder, [])
         = Inr (w, [''http://127.0.0.1:8080/schemas/schema123'']) \<and>
         status w = Some 500 \<and>
         body w = [Text (''Failed to obtain schema immutable traits: failed to fetch schema: <nil>''
                          @ [CHR 0x0A])] \<and>
         headerCalls w = [500])"
  using failures_are_terminal [of "\<lambda>keys. keys"
      "mockKratosPublicAPI ''schema123'' 500 (Inl ''EOF'')" "''malformed''"
      "\<lparr>SchemaID = ''schema123'', OldTraits = oldTraits,
        NewTraits = [''username'' \<mapsto> JStr ''newusername'']\<rparr>"
      "''failed to fetch schema: <nil>''" "[''http://127.0.0.1:8080/schemas/schema123'']"]
  by (simp add: fetchSchemaImmutableTraits_def mockKratosPublicAPI_def serverURL_def)

lemma webhookHandler_body:
  assumes "fetchSchemaImmutableTraits e (SchemaID payload) [] = (Inr immutableTraits, net)"
    and "webhookHandler rangeOrder e (Inr payload) (newRecorder, []) = Inr (w, net')"
    and "Json response \<in> set (body w)"
  shows "checkTraits (rangeOrder immutableTraits) (OldTraits payload) (NewTraits payload)
           = Inr (Messages response)"
proof -
  from webhookHandler_Inr_payload [OF assms(1,2)] obtain messages
    where check: "checkTraits (rangeOrder immutableTraits) (OldTraits payload) (NewTraits payload)
           = Inr messages"
    by blast
  with assms(1) have "webhookHandler rangeOrder e (Inr payload) (newRecorder, [])
      = Inr (WriteHeader 200
               (if messages \<noteq> []
                then Write (Json \<lparr>Messages = messages\<rparr>)
                       (WriteHeader 409
                          (Header_Set ''Content-Type'' ''application/json'' newRecorder))
                else newRecorder), net)"
    using webhookHandler_checked [where rangeOrder = rangeOrder and immutableTraits = immutableTraits]
    by simp
  with assms(2) have "body w = (if messages \<noteq> [] then [Json \<lparr>Messages = messages\<rparr>] else [])"
    by (auto simp: WriteHeader_def Write_def Header_Set_def newRecorder_def)
  with assms(3) have "response = \<lparr>Messages = messages\<rparr>"
    by (auto split: if_splits)
  with check show ?thesis by simp
qed


text \<open>
  Claim C10. In every payload the handler encodes, each container points to
  \<^verbatim>\<open>#/traits/\<close> followed by a name of the immutable set and holds exactly one nested message,
  with id 1377 and type \<^verbatim>\<open>conflict\<close>; and no trait has more than one container.
\<close>

theorem conflict_containers:
  assumes "isRangeOrder rangeOrder"
    and "fetchSchemaImmutableTraits e (SchemaID payload) [] = (Inr immutableTraits, net)"
    and "webhookHandler rangeOrder e (Inr payload) (newRecorder, []) = Inr (w, net')"
    and "Json response \<in> set (body w)"
  shows "(\<forall>m \<in> set (Messages response).
            (\<exists>a \<in> set immutableTraits. InstancePtr m = ''#/traits/'' @ a) \<and>
            (\<exists>n. WebhookResponseTopMessage.Messages m = [n] \<and> ID n = 1377 \<and>
                 WebhookResponseNestedMessage.Type n = ''conflict'')) \<and>
         (\<forall>a. containersFor a (Messages response) \<le> 1)"
proof -
  let ?order = "rangeOrder immutableTraits"
  let ?changed = "changedTrait (OldTraits payload) (NewTraits payload)"
  from assms(1) have perm: "mset ?order = mset immutableTraits"
    by (simp add: isRangeOrder_def)
  then have keys: "set ?order = set immutableTraits"
    by (rule mset_eq_setD)
  from fetch_distinct [OF assms(2)] have dist: "distinct ?order"
    using mset_eq_imp_distinct_iff [OF perm] by simp
  from webhookHandler_body [OF assms(2,3,4)]
  have msgs: "Messages response = map readOnlyMessage (filter ?changed ?order)"
    by (simp add: checkTraits_Inr)
  have "containersFor a (Messages response) \<le> 1" for a
    unfolding msgs by (simp add: containersFor_distinct [OF dist])
  moreover have "(\<exists>a \<in> set immutableTraits. InstancePtr m = ''#/traits/'' @ a) \<and>
      (\<exists>n. WebhookResponseTopMessage.Messages m = [n] \<and> ID n = 1377 \<and>
           WebhookResponseNestedMessage.Type n = ''conflict'')"
    if "m \<in> set (Messages response)" for m
  proof -
    from that obtain a where "a \<in> set ?order" and "m = readOnlyMessage a"
      unfolding msgs by auto
    with keys show ?thesis
      by (auto simp: readOnlyMessage_def instancePtr_def)
  qed
  ultimately show ?thesis by blast
qed



text \<open>Both traits change; only the read-only one gets a container.\<close>

theorem conflict_containers_witness:
  "isRangeOrder rev \<and>
   fetchSchemaImmutableTraits (mockKratosPublicAPI ''schema123'' 200 (Inr publicAPIResponse))
     ''schema123'' [] = (Inr [''email''], [''http://127.0.0.1:8080/schemas/schema123'']) \<and>
   webhookHandler rev (mockKratosPublicAPI ''schema123'' 200 (Inr publicAPIResponse))
     (Inr \<lparr>SchemaID = ''schema123'', OldTraits = oldTraits,
           NewTraits = [''email'' \<mapsto> JStr ''newemail@example.com'',
                        ''username'' \<mapsto> JStr ''newusername'']\<rparr>)
     (newRecorder, [])
     = Inr (\<lparr>header = [''Content-Type'' \<mapsto> ''application/json''], status = Some 409,
             body = [Json \<lparr>Messages = [readOnlyMessage ''email'']\<rparr>],
             headerCalls = [409, 200]\<rparr>,
            [''http://127.0.0.1:8080/schemas/schema123'']) \<and>
   InstancePtr (readOnlyMessage ''email'') = ''#/traits/email'' \<and>
   WebhookResponseTopMessage.Messages (readOnlyMessage ''email'')
     = [\<lparr>ID = 1377, Text = ''Element is read-only.'', Type = ''conflict''\<rparr>] \<and>
   containersFor ''email'' [readOnlyMessage ''email''] \<le> 1"
  using conflict_containers [of rev
      "mockKratosPublicAPI ''schema123'' 200 (Inr publicAPIResponse)"
      "\<lparr>SchemaID = ''schema123'', OldTraits = oldTraits,
        NewTraits = [''email'' \<mapsto> JStr ''newemail@example.com'',
                     ''username'' \<mapsto> JStr ''newusername'']\<rparr>"
      "[''email'']" "[''http://127.0.0.1:8080/schemas/schema123'']"
      "\<lparr>header = [''Content-Type'' \<mapsto> ''application/json''], status = Some 409,
        body = [Json \<lparr>Messages = [readOnlyMessage ''email'']\<rparr>],
        headerCalls = [409, 200]\<rparr>"
      "[''http://127.0.0.1:8080/schemas/schema123'']"
      "\<lparr>Messages = [readOnlyMessage ''email'']\<rparr>"]
  by (simp add: fetchSchemaImmutableTraits_def mockKratosPublicAPI_def serverURL_def
      publicAPIResponse_def oldTraits_def assertBool_def webhookHandler_def traitChanged_def
      mapIndex_def ifaceNe_def ifaceEq_def comparable_def Write_def WriteHeader_def
      Header_Set_def newRecorder_def isRangeOrder_def readOnlyMessage_def instancePtr_def
      containersFor_def)

end
